theory Spec2Isabelle
  imports Complex_Main
begin

section \<open>The reactor simulation of rbwr_desktop_app.py\<close>

text \<open>
  The embedding follows \<^verbatim>\<open>src/rbwr_desktop_app.py\<close>. Class \<^verbatim>\<open>RBWRReactor\<close> is a
  record of its twelve attributes; its method \<^verbatim>\<open>update\<close> and the three button handlers
  of \<^verbatim>\<open>RBWRApp\<close> that change the reactor are functions from the old record to the new
  one.

  Numbers. Python computes on binary floating point (and on unbounded integers where a
  value comes out of \<^verbatim>\<open>int(...)\<close> or an integer literal). Here every numeric attribute
  is a \<^typ>\<open>real\<close>: arithmetic is exact, and an attribute holds a Python integer exactly
  when its value is a whole number. Comparisons, \<^verbatim>\<open>max\<close> and \<^verbatim>\<open>min\<close> do not round,
  so the bounds shown below do not depend on rounding.

  Randomness. \<^verbatim>\<open>update\<close> calls \<^verbatim>\<open>random.uniform\<close> up to seven times. The results of
  these calls are an argument of the model, one field per call in the order of the
  source, so that any stub of the generator is a value of the record.
\<close>

subsection \<open>State\<close>

record reactor =
  thermal_power :: real
  temperature :: real
  pressure :: real
  feedwater_flow :: real
  turbine_speed :: real
  generator_load :: real
  rods_position :: real
  circulation_flow :: real
  xenon_poisoning :: real
  fuel_remaining :: real
  is_scrammed :: bool
  is_auto :: bool

text \<open>\<^verbatim>\<open>RBWRReactor.__init__\<close>, lines 11 to 22.\<close>

definition reactor_init :: reactor where
  "reactor_init =
     \<lparr> thermal_power = 0.0001,
       temperature = 31,
       pressure = 0,
       feedwater_flow = 0,
       turbine_speed = 0,
       generator_load = 0,
       rods_position = 0.0,
       circulation_flow = 0,
       xenon_poisoning = 10.1,
       fuel_remaining = 98.0,
       is_scrammed = False,
       is_auto = False \<rparr>"

subsection \<open>Random draws\<close>

text \<open>
  The values returned by the calls of \<^verbatim>\<open>random.uniform\<close> in one run of \<^verbatim>\<open>update\<close>:
  line 46 (0.95, 1.05), line 50 (-2, 2), line 51 (-100, 100), line 52 (-10, 10),
  line 53 (-50, 50), line 58 (-0.1, 0.1; drawn only when \<^verbatim>\<open>is_auto\<close> is false) and
  line 67 (-0.5, 0.5).
\<close>

record draws =
  power_draw :: real
  temperature_draw :: real
  pressure_draw :: real
  feedwater_draw :: real
  turbine_draw :: real
  rods_draw :: real
  xenon_draw :: real

text \<open>\<^verbatim>\<open>random.uniform(a, b)\<close> returns a value between \<open>a\<close> and \<open>b\<close>.\<close>

definition uniform_range :: "real \<Rightarrow> real \<Rightarrow> real \<Rightarrow> bool" where
  "uniform_range a b x = (a \<le> x \<and> x \<le> b)"

definition draws_in_range :: "draws \<Rightarrow> bool" where
  "draws_in_range d =
     (uniform_range 0.95 1.05 (power_draw d) \<and>
      uniform_range (- 2) 2 (temperature_draw d) \<and>
      uniform_range (- 100) 100 (pressure_draw d) \<and>
      uniform_range (- 10) 10 (feedwater_draw d) \<and>
      uniform_range (- 50) 50 (turbine_draw d) \<and>
      uniform_range (- 0.1) 0.1 (rods_draw d) \<and>
      uniform_range (- 0.5) 0.5 (xenon_draw d))"

text \<open>A stub of the generator that returns the same value \<open>c\<close> at every call.\<close>

definition constant_draws :: "real \<Rightarrow> draws" where
  "constant_draws c =
     \<lparr> power_draw = c, temperature_draw = c, pressure_draw = c, feedwater_draw = c,
       turbine_draw = c, rods_draw = c, xenon_draw = c \<rparr>"

subsection \<open>The physics step\<close>

text \<open>Python's \<^verbatim>\<open>int(x)\<close> on a float truncates toward zero.\<close>

definition py_int :: "real \<Rightarrow> real" where
  "py_int x = (if 0 \<le> x then of_int \<lfloor>x\<rfloor> else of_int \<lceil>x\<rceil>)"

definition is_integer :: "real \<Rightarrow> bool" where
  "is_integer x = (of_int \<lfloor>x\<rfloor> = x)"

text \<open>
  \<^verbatim>\<open>RBWRReactor.update\<close>, lines 24 to 72. The bindings of the \<open>let\<close> follow the
  assignments of the source in their order: \<open>rod_effect\<close> is line 35, \<open>rods1\<close> the rods
  after lines 38 to 44, \<open>tp\<close> line 47, \<open>temp1\<close> line 50, \<open>rods2\<close> lines 57 to 59,
  \<open>circ\<close> line 62, \<open>temp2\<close> lines 63 and 64, \<open>xenon\<close> lines 67 and 68.
\<close>

definition update :: "draws \<Rightarrow> reactor \<Rightarrow> reactor" where
  "update d s =
     (if is_scrammed s then
        (let tp = thermal_power s * 0.7 in
         s\<lparr> thermal_power := tp,
            temperature := temperature s - 5,
            pressure := pressure s * 0.8,
            turbine_speed := turbine_speed s * 0.9,
            generator_load := tp * 12 \<rparr>)
      else
        (let rod_effect = (100 - rods_position s) / 100;
             target_power = 95.0;
             rods1 = (if is_auto s then
                        (if thermal_power s < target_power
                         then max 0 (rods_position s - 0.5)
                         else min 100 (rods_position s + 0.5))
                      else rods_position s);
             power_change = rod_effect * power_draw d;
             tp = max 0.0001 (min 120.0 (thermal_power s * power_change));
             temp1 = 30 + (tp * 3) + temperature_draw d;
             rods2 = (if \<not> is_auto s
                      then max 0 (min 100 (rods1 + rods_draw d))
                      else rods1);
             circ = min 100 (max 0 (circulation_flow s));
             temp2 = (if circ < 50 then temp1 + 2 else temp1);
             xenon = min 35.0 (10.1 + (tp / 5) + xenon_draw d)
         in s\<lparr> thermal_power := tp,
               temperature := temp2,
               pressure := py_int (tp * 60 + pressure_draw d),
               feedwater_flow := tp * 4 + feedwater_draw d,
               turbine_speed := py_int (tp * 22 + turbine_draw d),
               generator_load := py_int (tp * 12),
               rods_position := rods2,
               circulation_flow := circ,
               xenon_poisoning := xenon,
               fuel_remaining := max 0 (fuel_remaining s - 0.0001) \<rparr>))"

subsection \<open>The button handlers\<close>

text \<open>
  \<^verbatim>\<open>RBWRApp.scram_reactor\<close>, lines 246 to 257: one handler both enters and resets
  SCRAM. Its calls of \<^verbatim>\<open>config\<close> on the rod scale and on the circulation button change
  widgets only and nothing of the reactor. The operation \<open>scram()\<close> is this handler in
  a state that is not scrammed, \<open>resetScram()\<close> the handler in a scrammed state.
\<close>

definition scram_reactor :: "reactor \<Rightarrow> reactor" where
  "scram_reactor s =
     (if is_scrammed s then s\<lparr> is_scrammed := False \<rparr>
      else s\<lparr> is_scrammed := True, is_auto := False \<rparr>)"

text \<open>\<^verbatim>\<open>RBWRApp.toggle_circulation\<close>, lines 259 to 263.\<close>

definition toggle_circulation :: "reactor \<Rightarrow> reactor" where
  "toggle_circulation s =
     (if circulation_flow s < 50 then s\<lparr> circulation_flow := 100 \<rparr>
      else s\<lparr> circulation_flow := 0 \<rparr>)"

text \<open>\<^verbatim>\<open>RBWRApp.toggle_auto\<close>, lines 265 and 266.\<close>

definition toggle_auto :: "reactor \<Rightarrow> reactor" where
  "toggle_auto s = s\<lparr> is_auto := \<not> is_auto s \<rparr>"

subsection \<open>Runs\<close>

text \<open>
  What can happen to the reactor while the application runs: the simulation thread
  writes the value of the rod scale into \<^verbatim>\<open>rods_position\<close> (line 207) and calls
  \<^verbatim>\<open>update\<close> (line 208); the user presses one of the three buttons. A run is a list
  of such events, applied from the left.
\<close>

datatype event =
    Update draws
  | SetRods real
  | ScramButton
  | CirculationButton
  | AutoButton

fun step :: "reactor \<Rightarrow> event \<Rightarrow> reactor" where
  "step s (Update d) = update d s"
| "step s (SetRods v) = s\<lparr> rods_position := v \<rparr>"
| "step s ScramButton = scram_reactor s"
| "step s CirculationButton = toggle_circulation s"
| "step s AutoButton = toggle_auto s"

definition run :: "reactor \<Rightarrow> event list \<Rightarrow> reactor" where
  "run s es = foldl step s es"

text \<open>The domains the data model of the specification gives to the bounded fields.\<close>

definition in_domain :: "reactor \<Rightarrow> bool" where
  "in_domain s =
     (0.0001 \<le> thermal_power s \<and> thermal_power s \<le> 120.0 \<and>
      0 \<le> rods_position s \<and> rods_position s \<le> 100 \<and>
      0 \<le> xenon_poisoning s \<and> xenon_poisoning s \<le> 35 \<and>
      0 \<le> fuel_remaining s \<and> fuel_remaining s \<le> 100)"

text \<open>
  The bounds that every tick keeps, in SCRAM and outside it: those of \<open>in_domain\<close>
  with the lower bound of the thermal power weakened to strict positivity. Every state
  with \<open>in_domain\<close> has them.
\<close>

definition in_bounds :: "reactor \<Rightarrow> bool" where
  "in_bounds s =
     (0 < thermal_power s \<and> thermal_power s \<le> 120.0 \<and>
      0 \<le> rods_position s \<and> rods_position s \<le> 100 \<and>
      0 \<le> xenon_poisoning s \<and> xenon_poisoning s \<le> 35 \<and>
      0 \<le> fuel_remaining s \<and> fuel_remaining s \<le> 100)"

text \<open>
  The events the application can produce: the draws of a tick lie in the ranges of
  their calls, and the rod scale (line 155, \<^verbatim>\<open>from_=0, to=100\<close>) gives a value between
  0 and 100.
\<close>

fun event_ok :: "event \<Rightarrow> bool" where
  "event_ok (Update d) = draws_in_range d"
| "event_ok (SetRods v) = (0 \<le> v \<and> v \<le> 100)"
| "event_ok ScramButton = True"
| "event_ok CirculationButton = True"
| "event_ok AutoButton = True"

subsection \<open>Concrete draws and states\<close>

text \<open>
  A stub that takes the noise out: the factor of line 46 is 1 and every additive term
  is 0. All seven values lie in the ranges of their calls.
\<close>

definition neutral_draws :: draws where
  "neutral_draws =
     \<lparr> power_draw = 1, temperature_draw = 0, pressure_draw = 0, feedwater_draw = 0,
       turbine_draw = 0, rods_draw = 0, xenon_draw = 0 \<rparr>"

text \<open>The same stub with 6 for the pressure noise of line 51.\<close>

definition pressure_draws :: draws where
  "pressure_draws = neutral_draws\<lparr> pressure_draw := 6 \<rparr>"

text \<open>The initial reactor after one tick and a press of the SCRAM button.\<close>

definition scrammed_example :: reactor where
  "scrammed_example = run reactor_init [Update pressure_draws, ScramButton]"

text \<open>A reactor in auto mode at half power with the rods half inserted.\<close>

definition auto_example :: reactor where
  "auto_example = reactor_init\<lparr> thermal_power := 50, rods_position := 50, is_auto := True \<rparr>"

text \<open>The initial reactor with the circulation switched on.\<close>

definition scenario_state :: reactor where
  "scenario_state = toggle_circulation reactor_init"

section \<open>Properties\<close>

subsection \<open>Auxiliary facts\<close>

lemma neutral_draws_in_range: "draws_in_range neutral_draws"
  by (simp add: draws_in_range_def uniform_range_def neutral_draws_def)

lemma scrammed_example_fields:
  "is_scrammed scrammed_example"
  "thermal_power scrammed_example = 0.0001"
  "pressure scrammed_example = 6"
  "generator_load scrammed_example = 0"
  by (simp_all add: scrammed_example_def run_def update_def Let_def reactor_init_def
      pressure_draws_def neutral_draws_def scram_reactor_def py_int_def)

lemma is_integer_py_int: "is_integer (py_int x)"
  by (simp add: is_integer_def py_int_def)

text \<open>
  Outside SCRAM the pressure and the generator load come out of \<^verbatim>\<open>int(...)\<close>
  (lines 51 and 54) and are whole numbers.
\<close>

lemma normal_tick_integer:
  "\<not> is_scrammed s \<Longrightarrow>
     is_integer (pressure (update d s)) \<and> is_integer (generator_load (update d s))"
  by (simp add: update_def Let_def is_integer_py_int)

text \<open>Entering SCRAM switches auto mode off, and \<^verbatim>\<open>update\<close> changes neither flag.\<close>

lemma scram_reactor_exclusive:
  "\<not> (is_scrammed (scram_reactor s) \<and> is_auto (scram_reactor s))"
  by (simp add: scram_reactor_def)

lemma update_flags:
  "is_scrammed (update d s) = is_scrammed s \<and> is_auto (update d s) = is_auto s"
  by (simp add: update_def Let_def)

text \<open>One event neither raises the fuel nor takes it below zero.\<close>

lemma step_fuel:
  "0 \<le> fuel_remaining s \<Longrightarrow>
     0 \<le> fuel_remaining (step s e) \<and> fuel_remaining (step s e) \<le> fuel_remaining s"
  by (cases e)
     (simp_all add: update_def Let_def scram_reactor_def toggle_circulation_def toggle_auto_def)

text \<open>One event keeps the thermal power positive.\<close>

lemma step_power:
  "0 < thermal_power s \<Longrightarrow> 0 < thermal_power (step s e)"
  by (cases e)
     (simp_all add: update_def Let_def scram_reactor_def toggle_circulation_def toggle_auto_def
        less_max_iff_disj)

lemma run_power: "0 < thermal_power s \<Longrightarrow> 0 < thermal_power (run s es)"
  unfolding run_def
  by (induction es arbitrary: s) (simp_all add: step_power)

subsection \<open>Bounds after a tick\<close>

lemma in_domain_in_bounds: "in_domain s \<Longrightarrow> in_bounds s"
  by (simp add: in_domain_def in_bounds_def)

lemma update_scram_in_bounds:
  "in_bounds s \<Longrightarrow> is_scrammed s \<Longrightarrow> in_bounds (update d s)"
  by (simp add: in_bounds_def update_def Let_def)

lemma update_normal_in_domain:
  "in_bounds s \<Longrightarrow> draws_in_range d \<Longrightarrow> \<not> is_scrammed s \<Longrightarrow> in_domain (update d s)"
  by (auto simp add: in_bounds_def in_domain_def draws_in_range_def uniform_range_def
      update_def Let_def)

lemma update_in_bounds:
  "in_bounds s \<Longrightarrow> draws_in_range d \<Longrightarrow> in_bounds (update d s)"
  by (cases "is_scrammed s")
     (simp_all add: update_scram_in_bounds update_normal_in_domain in_domain_in_bounds)

lemma step_in_bounds:
  "in_bounds s \<Longrightarrow> event_ok e \<Longrightarrow> in_bounds (step s e)"
  by (cases e)
     (simp_all add: update_in_bounds,
      simp_all add: in_bounds_def scram_reactor_def toggle_circulation_def toggle_auto_def)

lemma run_in_bounds:
  "in_bounds s \<Longrightarrow> list_all event_ok es \<Longrightarrow> in_bounds (run s es)"
  unfolding run_def
  by (induction es arbitrary: s) (simp_all add: step_in_bounds)

text \<open>
  C1 (as amended). Start from any state whose rods are in [0, 100], xenon in [0, 35],
  fuel in [0, 100] and thermal power in (0, 120], which every in-domain state is, and
  let any run of ticks (draws in the ranges of their calls), button presses and rod
  scale readings pass. Then after every further invocation of \<^verbatim>\<open>update\<close> the rods are
  in [0, 100], the xenon in [0, 35], the fuel in [0, 100] and the thermal power in
  (0, 120]; and when that tick is taken outside SCRAM the thermal power is at least
  0.0001, so that all four fields are in their declared domains. A tick in SCRAM
  multiplies the power by 0.7 and has no floor.
\<close>

theorem update_in_domain:
  assumes "in_bounds s" and "list_all event_ok es" and "draws_in_range d"
  shows "in_bounds (update d (run s es)) \<and>
         (\<not> is_scrammed (run s es) \<longrightarrow> in_domain (update d (run s es)))"
proof -
  from assms(1,2) have b: "in_bounds (run s es)"
    by (rule run_in_bounds)
  from b assms(3) have "in_bounds (update d (run s es))"
    by (rule update_in_bounds)
  moreover from b assms(3)
  have "\<not> is_scrammed (run s es) \<longrightarrow> in_domain (update d (run s es))"
    by (simp add: update_normal_in_domain)
  ultimately show ?thesis by simp
qed

text \<open>
  The amended C1 from the initial reactor, at the second tick in SCRAM (thermal power
  0.000049, within the bounds) and at the tick after the reset, which brings the power
  back to 0.0001 and all four fields into their domains.
\<close>

theorem update_in_domain_witness:
  "in_domain reactor_init \<and> in_bounds reactor_init \<and>
   list_all event_ok [ScramButton, Update neutral_draws] \<and>
   list_all event_ok [ScramButton, Update neutral_draws, Update neutral_draws, ScramButton] \<and>
   draws_in_range neutral_draws \<and>
   is_scrammed (run reactor_init [ScramButton, Update neutral_draws]) \<and>
   thermal_power (update neutral_draws (run reactor_init [ScramButton, Update neutral_draws]))
     = 0.000049 \<and>
   in_bounds (update neutral_draws (run reactor_init [ScramButton, Update neutral_draws])) \<and>
   \<not> is_scrammed
       (run reactor_init [ScramButton, Update neutral_draws, Update neutral_draws, ScramButton]) \<and>
   in_domain
     (update neutral_draws
        (run reactor_init [ScramButton, Update neutral_draws, Update neutral_draws, ScramButton]))"
proof -
  have h0: "in_domain reactor_init"
    by (simp add: in_domain_def reactor_init_def)
  have h1: "in_bounds reactor_init"
    by (simp add: in_bounds_def reactor_init_def)
  have h2: "list_all event_ok [ScramButton, Update neutral_draws]"
    by (simp add: neutral_draws_in_range)
  have h3: "list_all event_ok
              [ScramButton, Update neutral_draws, Update neutral_draws, ScramButton]"
    by (simp add: neutral_draws_in_range)
  have h4: "draws_in_range neutral_draws"
    by (rule neutral_draws_in_range)
  have s1: "is_scrammed (run reactor_init [ScramButton, Update neutral_draws])"
    by (simp add: run_def update_flags scram_reactor_def reactor_init_def)
  have s2: "\<not> is_scrammed
       (run reactor_init [ScramButton, Update neutral_draws, Update neutral_draws, ScramButton])"
    by (simp add: run_def update_flags scram_reactor_def reactor_init_def)
  have p: "thermal_power
             (update neutral_draws (run reactor_init [ScramButton, Update neutral_draws]))
           = 0.000049"
    by (simp add: run_def update_def Let_def scram_reactor_def reactor_init_def)
  from update_in_domain [OF h1 h2 h4]
  have a: "in_bounds (update neutral_draws (run reactor_init [ScramButton, Update neutral_draws]))"
    by simp
  from update_in_domain [OF h1 h3 h4] s2
  have b: "in_domain
     (update neutral_draws
        (run reactor_init [ScramButton, Update neutral_draws, Update neutral_draws, ScramButton]))"
    by simp
  show ?thesis
    using h0 h1 h2 h3 h4 s1 s2 p a b by simp
qed

text \<open>
  C1 as stated fails in SCRAM. The initial reactor after \<open>scram()\<close> is in its domains
  with thermal power 0.0001; the tick takes the power to 0.00007, below the lower bound.
\<close>

theorem update_scram_counterexample:
  "in_domain (scram_reactor reactor_init) \<and> draws_in_range neutral_draws \<and>
   thermal_power (update neutral_draws (scram_reactor reactor_init)) < 0.0001 \<and>
   \<not> in_domain (update neutral_draws (scram_reactor reactor_init))"
  by (simp add: in_domain_def scram_reactor_def reactor_init_def update_def Let_def
      neutral_draws_in_range)

subsection \<open>The two mode flags\<close>

text \<open>
  C2. The claim is that no run from the initial state has \<open>is_scrammed\<close> and \<open>is_auto\<close>
  both true. The code does not keep it: after the SCRAM button and then the AUTO MODE
  button, both flags are true.
\<close>

theorem scram_then_auto:
  "is_scrammed (run reactor_init [ScramButton, AutoButton]) \<and>
   is_auto (run reactor_init [ScramButton, AutoButton])"
  by (simp add: run_def scram_reactor_def toggle_auto_def reactor_init_def)

subsection \<open>SCRAM and its reset\<close>

text \<open>
  C3. \<open>scram()\<close> sets \<open>is_auto\<close> to false, and a tick taken while \<open>is_scrammed\<close> is
  true sets the thermal power to 0.7 times and the pressure to 0.8 times its value
  before the tick; the result of such a tick is the same for any two outcomes of the
  draws.
\<close>

theorem scram_decay:
  "(\<not> is_scrammed s \<longrightarrow> is_scrammed (scram_reactor s) \<and> is_auto (scram_reactor s) = False) \<and>
   (is_scrammed s \<longrightarrow>
      thermal_power (update d s) = 0.7 * thermal_power s \<and>
      pressure (update d s) = 0.8 * pressure s \<and>
      update d s = update d' s)"
  by (simp add: scram_reactor_def update_def Let_def)

text \<open>
  C3 at the initial reactor in auto mode, and at a scrammed reactor with thermal power
  0.0001 and pressure 6, under two different stubs of the draws.
\<close>

theorem scram_decay_witness:
  "\<not> is_scrammed (toggle_auto reactor_init) \<and> is_auto (toggle_auto reactor_init) \<and>
   is_scrammed (scram_reactor (toggle_auto reactor_init)) \<and>
   \<not> is_auto (scram_reactor (toggle_auto reactor_init)) \<and>
   is_scrammed scrammed_example \<and>
   thermal_power scrammed_example = 0.0001 \<and> pressure scrammed_example = 6 \<and>
   thermal_power (update (constant_draws 1) scrammed_example) = 0.00007 \<and>
   pressure (update (constant_draws 1) scrammed_example) = 4.8 \<and>
   update (constant_draws 1) scrammed_example = update neutral_draws scrammed_example"
proof -
  have h1: "\<not> is_scrammed (toggle_auto reactor_init)" "is_auto (toggle_auto reactor_init)"
    by (simp_all add: toggle_auto_def reactor_init_def)
  have h2: "is_scrammed scrammed_example" "thermal_power scrammed_example = 0.0001"
    "pressure scrammed_example = 6"
    by (simp_all add: scrammed_example_fields)
  from scram_decay [of "toggle_auto reactor_init"] h1(1)
  have a: "is_scrammed (scram_reactor (toggle_auto reactor_init))"
    "\<not> is_auto (scram_reactor (toggle_auto reactor_init))"
    by simp_all
  from scram_decay [of scrammed_example "constant_draws 1" neutral_draws] h2(1)
  have b: "thermal_power (update (constant_draws 1) scrammed_example)
             = 0.7 * thermal_power scrammed_example"
    "pressure (update (constant_draws 1) scrammed_example) = 0.8 * pressure scrammed_example"
    "update (constant_draws 1) scrammed_example = update neutral_draws scrammed_example"
    by blast+
  have c: "thermal_power (update (constant_draws 1) scrammed_example) = 0.00007"
    "pressure (update (constant_draws 1) scrammed_example) = 4.8"
    unfolding b(1) b(2) h2(2) h2(3) by simp_all
  show ?thesis
    using h1 h2 a b(3) c by blast
qed

text \<open>
  C7. For every state that is not scrammed, \<open>scram()\<close> followed by \<open>resetScram()\<close>,
  with no tick in between, gives the state it started from with \<open>is_auto\<close> set to
  false: every other attribute, \<open>is_scrammed\<close> included, has its old value.
\<close>

theorem scram_then_reset:
  "\<not> is_scrammed s \<Longrightarrow> scram_reactor (scram_reactor s) = s\<lparr> is_auto := False \<rparr>"
  by (simp add: scram_reactor_def)

text \<open>C7 at the initial reactor in auto mode.\<close>

theorem scram_then_reset_witness:
  "\<not> is_scrammed (toggle_auto reactor_init) \<and>
   is_auto (toggle_auto reactor_init) \<and>
   scram_reactor (scram_reactor (toggle_auto reactor_init))
     = (toggle_auto reactor_init)\<lparr> is_auto := False \<rparr>"
proof -
  have h: "\<not> is_scrammed (toggle_auto reactor_init)"
    by (simp add: toggle_auto_def reactor_init_def)
  show ?thesis
    using h scram_then_reset [OF h] by (simp add: toggle_auto_def reactor_init_def)
qed

subsection \<open>A tick in auto mode\<close>

text \<open>
  C4 (as amended). In a tick outside SCRAM with \<open>is_auto\<close> true, the rods move by 0.5:
  down, not below 0, when the thermal power before the tick is below 95, and up, not
  above 100, otherwise. The thermal power becomes the old power times the rod effect
  times the draw of line 46, clamped to [0.0001, 120], where the rod effect is
  (100 - rods) / 100 for the rods position at the start of the tick, before the move.
\<close>

theorem auto_tick:
  assumes "\<not> is_scrammed s" and "is_auto s"
  shows "rods_position (update d s) =
           (if thermal_power s < 95 then max 0 (rods_position s - 0.5)
            else min 100 (rods_position s + 0.5)) \<and>
         thermal_power (update d s) =
           max 0.0001 (min 120 (thermal_power s * ((100 - rods_position s) / 100) * power_draw d))"
  using assms by (simp add: update_def Let_def mult.assoc)

text \<open>The amended C4 at power 50 with the rods at 50: rods 49.5 and power 25.\<close>

theorem auto_tick_witness:
  "\<not> is_scrammed auto_example \<and> is_auto auto_example \<and>
   rods_position (update neutral_draws auto_example) = 49.5 \<and>
   thermal_power (update neutral_draws auto_example) = 25"
proof -
  have h: "\<not> is_scrammed auto_example" "is_auto auto_example"
    by (simp_all add: auto_example_def reactor_init_def)
  show ?thesis
    using h auto_tick [OF h, of neutral_draws]
    by (simp add: auto_example_def reactor_init_def neutral_draws_def)
qed

text \<open>
  C4 as stated fails: at power 50 with the rods at 50 the tick moves the rods to 49.5
  and sets the power to 25, which is 50 times the rod effect 0.5 of the old position;
  the rod effect 0.505 of the moved rods would give 25.25.
\<close>

theorem auto_tick_counterexample:
  "\<not> is_scrammed auto_example \<and> is_auto auto_example \<and>
   rods_position (update neutral_draws auto_example) = 49.5 \<and>
   thermal_power (update neutral_draws auto_example) = 25 \<and>
   thermal_power (update neutral_draws auto_example) \<noteq>
     max 0.0001 (min 120 (thermal_power auto_example
        * ((100 - rods_position (update neutral_draws auto_example)) / 100)
        * power_draw neutral_draws))"
  by (simp add: auto_example_def reactor_init_def neutral_draws_def update_def Let_def)

subsection \<open>One tick with the randomness stubbed\<close>

text \<open>
  C5 (as amended). From a state with the rods at 0, circulation 100, neither auto nor
  scrammed, and thermal power 0.0001: with the factor of line 46 stubbed to 1 and every
  additive noise term stubbed to 0, one tick gives thermal power 0.0001, temperature
  30.0003 and pressure 0; with every draw stubbed to 1 it gives thermal power 0.0001,
  temperature 31.0003 and pressure 1.
\<close>

theorem one_tick_scenario:
  assumes "rods_position s = 0" and "circulation_flow s = 100" and "\<not> is_auto s"
    and "\<not> is_scrammed s" and "thermal_power s = 0.0001"
  shows "thermal_power (update neutral_draws s) = 0.0001 \<and>
         temperature (update neutral_draws s) = 30.0003 \<and>
         pressure (update neutral_draws s) = 0 \<and>
         thermal_power (update (constant_draws 1) s) = 0.0001 \<and>
         temperature (update (constant_draws 1) s) = 31.0003 \<and>
         pressure (update (constant_draws 1) s) = 1"
  using assms
  by (simp add: update_def Let_def neutral_draws_def constant_draws_def py_int_def)

text \<open>The amended C5 at the initial reactor with the circulation switched on.\<close>

theorem one_tick_scenario_witness:
  "rods_position scenario_state = 0 \<and> circulation_flow scenario_state = 100 \<and>
   \<not> is_auto scenario_state \<and> \<not> is_scrammed scenario_state \<and>
   thermal_power scenario_state = 0.0001 \<and>
   temperature (update neutral_draws scenario_state) = 30.0003 \<and>
   pressure (update neutral_draws scenario_state) = 0 \<and>
   temperature (update (constant_draws 1) scenario_state) = 31.0003 \<and>
   pressure (update (constant_draws 1) scenario_state) = 1"
proof -
  have h: "rods_position scenario_state = 0" "circulation_flow scenario_state = 100"
    "\<not> is_auto scenario_state" "\<not> is_scrammed scenario_state"
    "thermal_power scenario_state = 0.0001"
    by (simp_all add: scenario_state_def toggle_circulation_def reactor_init_def)
  show ?thesis
    using h one_tick_scenario [OF h] by simp
qed

text \<open>
  C5 as stated fails: with every draw stubbed to 1 the temperature after the tick is
  not 30.0003 and the pressure is not 0.
\<close>

theorem one_tick_counterexample:
  "rods_position scenario_state = 0 \<and> circulation_flow scenario_state = 100 \<and>
   \<not> is_auto scenario_state \<and> \<not> is_scrammed scenario_state \<and>
   thermal_power scenario_state = 0.0001 \<and>
   temperature (update (constant_draws 1) scenario_state) \<noteq> 30.0003 \<and>
   pressure (update (constant_draws 1) scenario_state) \<noteq> 0"
  by (simp add: scenario_state_def toggle_circulation_def reactor_init_def update_def Let_def
      constant_draws_def py_int_def)

subsection \<open>Fuel\<close>

text \<open>
  C6. From every state whose fuel is in its domain (not negative), the fuel after any
  run of ticks, with any outcome of the draws and with the mode buttons and the rod
  scale used in between in any order, is at most the fuel before the run.
\<close>

theorem fuel_non_increasing:
  "0 \<le> fuel_remaining s \<Longrightarrow> fuel_remaining (run s es) \<le> fuel_remaining s"
  unfolding run_def
proof (induction es arbitrary: s)
  case Nil
  show ?case by simp
next
  case (Cons e es)
  from step_fuel [OF Cons.prems, of e]
  have a: "0 \<le> fuel_remaining (step s e)"
    and b: "fuel_remaining (step s e) \<le> fuel_remaining s"
    by simp_all
  from Cons.IH [OF a] b show ?case by simp
qed

text \<open>C6 on a tick, a SCRAM and a scrammed tick from the initial reactor.\<close>

theorem fuel_non_increasing_witness:
  "0 \<le> fuel_remaining reactor_init \<and>
   fuel_remaining (run reactor_init [Update neutral_draws, ScramButton, Update neutral_draws])
     = 97.9999 \<and>
   fuel_remaining (run reactor_init [Update neutral_draws, ScramButton, Update neutral_draws])
     \<le> fuel_remaining reactor_init"
proof -
  have h: "0 \<le> fuel_remaining reactor_init" by (simp add: reactor_init_def)
  have v: "fuel_remaining
             (run reactor_init [Update neutral_draws, ScramButton, Update neutral_draws])
           = 97.9999"
    by (simp add: run_def update_def Let_def scram_reactor_def reactor_init_def)
  show ?thesis
    using h v
      fuel_non_increasing [OF h, of "[Update neutral_draws, ScramButton, Update neutral_draws]"]
    by simp
qed

subsection \<open>Circulation\<close>

text \<open>
  C8. \<^verbatim>\<open>toggle_circulation\<close> sets the circulation flow to 100 when it is below 50 and to
  0 otherwise, and changes no other attribute; from a flow below 50, one call gives 100
  and a second call gives 0.
\<close>

theorem toggle_circulation_spec:
  "toggle_circulation s
     = s\<lparr> circulation_flow := (if circulation_flow s < 50 then 100 else 0) \<rparr> \<and>
   (circulation_flow s < 50 \<longrightarrow>
      circulation_flow (toggle_circulation s) = 100 \<and>
      circulation_flow (toggle_circulation (toggle_circulation s)) = 0)"
  by (simp add: toggle_circulation_def)

text \<open>C8 at the initial reactor, whose circulation flow is 0.\<close>

theorem toggle_circulation_spec_witness:
  "circulation_flow reactor_init < 50 \<and>
   circulation_flow (toggle_circulation reactor_init) = 100 \<and>
   circulation_flow (toggle_circulation (toggle_circulation reactor_init)) = 0"
proof -
  have h: "circulation_flow reactor_init < 50" by (simp add: reactor_init_def)
  show ?thesis using h toggle_circulation_spec [of reactor_init]
    by (simp add: toggle_circulation_def reactor_init_def)
qed

subsection \<open>Whole-number fields\<close>

text \<open>
  C9. The claim is that the pressure and the generator load are whole numbers after
  every tick, scrammed ticks included. The SCRAM branch does not keep it: from a
  scrammed reactor with pressure 6, generator load 0 and thermal power 0.0001, the tick
  gives pressure 4.8 and generator load 0.00084.
\<close>

theorem scram_tick_not_integer:
  "is_scrammed scrammed_example \<and>
   is_integer (pressure scrammed_example) \<and>
   is_integer (generator_load scrammed_example) \<and>
   pressure (update neutral_draws scrammed_example) = 4.8 \<and>
   generator_load (update neutral_draws scrammed_example) = 0.00084 \<and>
   \<not> is_integer (pressure (update neutral_draws scrammed_example)) \<and>
   \<not> is_integer (generator_load (update neutral_draws scrammed_example))"
  by (simp add: scrammed_example_fields update_def Let_def is_integer_def)

subsection \<open>Positive power\<close>

text \<open>
  C10. In every state reached from the initial state by any run of ticks, with any
  outcome of the draws, of button presses and of writes of the rod scale, the thermal
  power is strictly positive.
\<close>

theorem power_positive: "0 < thermal_power (run reactor_init es)"
  by (rule run_power) (simp add: reactor_init_def)

end
